theory Spec2Isabelle
  imports Complex_Main
begin

section \<open>Plano: the geometry, snapping and validation core of \<open>src/Plano.tsx\<close>\<close>

text \<open>
  The component keeps its state in React hooks and changes it inside pointer handlers.
  Here every handler is a function from the state before the event to the state after
  it, and every closure over a hook value (\<open>containerDepth\<close>, \<open>rowCount\<close>,
  \<open>gridSize\<close>) takes that value as an argument.

  Numbers. A JavaScript \<open>number\<close> that holds a finite value is modelled as a
  \<open>real\<close>: arithmetic is exact, there is no rounding, no overflow and no infinity.
  Where the source tests a number for truthiness (\<open>v || 0\<close>, \<open>!stageHeight\<close>) the slot
  is a \<open>jsval\<close>, which adds \<open>undefined\<close> and \<open>NaN\<close> to the finite numbers.
  The source computes in binary64, where a quotient or a product can be off in the last
  place; the model does not show that rounding.
\<close>

subsection \<open>Values and data\<close>

datatype jsval = Undefined | NaN | Num real

text \<open>\<open>v || 0\<close>: the value itself when it is truthy, otherwise \<open>0\<close>; \<open>undefined\<close>,
  \<open>NaN\<close> and \<open>0\<close> are the falsy values of a numeric slot.\<close>

fun or_zero :: "jsval \<Rightarrow> real" where
  "or_zero Undefined = 0"
| "or_zero NaN = 0"
| "or_zero (Num r) = (if r \<noteq> 0 then r else 0)"

text \<open>\<open>type PlanoItem\<close>. The fields are prefixed, since \<open>id\<close>, \<open>x\<close>, \<open>y\<close> are wanted as
  variable names.\<close>

record planoItem =
  item_id :: string
  item_name :: string
  item_x :: real
  item_y :: real
  item_w :: real
  item_h :: real
  item_depth :: jsval
  item_qty :: jsval
  item_color :: string

text \<open>\<open>type DragState\<close> (the \<open>null\<close> case is \<open>None\<close> of \<open>dragState option\<close>).\<close>

record dragState =
  drag_id :: string
  offsetX :: real
  offsetY :: real
  resizing :: bool

text \<open>\<open>type MeasureState\<close>.\<close>

record measureState =
  active :: bool
  measure_x :: real
  measure_y :: real
  measure_w :: real
  measure_h :: real

text \<open>\<open>type StageSize\<close>.\<close>

record stageSize =
  stage_width :: real
  stage_height :: real

text \<open>The part of \<open>getBoundingClientRect()\<close> the handlers read.\<close>

record domRect =
  rect_left :: real
  rect_top :: real

text \<open>The hook state of \<open>PlanoMVP\<close>.\<close>

record plano =
  gridSize :: real
  pxPerCm :: real
  containerDepth :: real
  measureMode :: bool
  rowCount :: real
  stageSz :: stageSize
  items :: "planoItem list"
  selectedId :: "string option"
  drag :: "dragState option"
  measure :: measureState

subsection \<open>Snapping\<close>

text \<open>\<open>Math.round\<close>: the nearest integer, a tie going up.\<close>

definition Math_round :: "real \<Rightarrow> real" where
  "Math_round v = of_int \<lfloor>v + 1 / 2\<rfloor>"

text \<open>\<open>function snap(value, grid) { return Math.round(value / grid) * grid; }\<close>
  At \<open>grid = 0\<close> JavaScript returns \<open>NaN\<close>, which a \<open>real\<close> cannot hold; every
  statement below about \<open>snap\<close> is for a grid other than \<open>0\<close>.\<close>

definition snap :: "real \<Rightarrow> real \<Rightarrow> real" where
  "snap v grid = Math_round (v / grid) * grid"

text \<open>\<open>withinHandle\<close>: the 14 by 14 pixel zone at the bottom-right corner.\<close>

definition withinHandle :: "real \<Rightarrow> real \<Rightarrow> planoItem \<Rightarrow> bool" where
  "withinHandle px py it =
     (let handleSize = 14 in
        px \<ge> item_x it + item_w it - handleSize \<and>
        px \<le> item_x it + item_w it \<and>
        py \<ge> item_y it + item_h it - handleSize \<and>
        py \<le> item_y it + item_h it)"

subsection \<open>Validation\<close>

text \<open>\<open>(it) => (it.qty || 0) * (it.depth || 0) > containerDepth\<close>\<close>

definition depthExceeded :: "real \<Rightarrow> planoItem \<Rightarrow> bool" where
  "depthExceeded cDepth it = (or_zero (item_qty it) * or_zero (item_depth it) > cDepth)"

text \<open>\<open>rowCount > 0 && stageSize.height ? stageSize.height / rowCount : null\<close>\<close>

definition rowHeightPx :: "real \<Rightarrow> real \<Rightarrow> real option" where
  "rowHeightPx rowCnt stageH =
     (if rowCnt > 0 \<and> stageH \<noteq> 0 then Some (stageH / rowCnt) else None)"

text \<open>\<open>(item) => rowHeightPx !== null && item.h > rowHeightPx + 0.01\<close>\<close>

definition isHeightExceeded :: "real option \<Rightarrow> planoItem \<Rightarrow> bool" where
  "isHeightExceeded rh it =
     (case rh of None \<Rightarrow> False | Some r \<Rightarrow> item_h it > r + 1 / 100)"

subsection \<open>Row alignment\<close>

text \<open>The \<open>newY\<close> that \<open>alignItemToRows\<close> computes once its guard has passed: \<open>sh\<close> is
  the stage height, a number other than 0, and \<open>rowCnt\<close> the \<open>rowCount\<close> the callback
  closes over.\<close>

definition alignedY :: "real \<Rightarrow> real \<Rightarrow> planoItem \<Rightarrow> real" where
  "alignedY rowCnt sh item =
     (let rowHeight = sh / rowCnt;
          itemBottom = item_y item + item_h item;
          rawRow = of_int \<lceil>itemBottom / rowHeight\<rceil> - 1;
          rowIndex = max 0 (min (rowCnt - 1) rawRow);
          baseline = min sh (rowHeight * (rowIndex + 1));
          newY = max 0 (baseline - item_h item)
      in newY)"

text \<open>\<open>alignItemToRows(item, stageHeight?)\<close>. The guard \<open>!stageHeight || rowCount <= 0\<close>
  returns the item for a stage height that is \<open>undefined\<close>, \<open>NaN\<close> or \<open>0\<close>.\<close>

definition alignItemToRows :: "real \<Rightarrow> planoItem \<Rightarrow> jsval \<Rightarrow> planoItem" where
  "alignItemToRows rowCnt item stageHeight =
     (case stageHeight of
        Undefined \<Rightarrow> item
      | NaN \<Rightarrow> item
      | Num sh \<Rightarrow>
          if sh = 0 \<or> rowCnt \<le> 0 then item
          else
            let newY = alignedY rowCnt sh item
            in if \<bar>newY - item_y item\<bar> < 1 / 100 then item
               else item\<lparr>item_y := newY\<rparr>)"

subsection \<open>Pointer handlers and deletion\<close>

text \<open>\<open>items.find((i) => i.id === selectedId) || null\<close>\<close>

definition selected :: "plano \<Rightarrow> planoItem option" where
  "selected s =
     (case selectedId s of
        None \<Rightarrow> None
      | Some sid \<Rightarrow> find (\<lambda>i. item_id i = sid) (items s))"

text \<open>The hit test of \<open>onPointerDown\<close>: the rectangle of \<open>it\<close>, edges included.\<close>

definition hits :: "real \<Rightarrow> real \<Rightarrow> planoItem \<Rightarrow> bool" where
  "hits px py it =
     (px \<ge> item_x it \<and> px \<le> item_x it + item_w it \<and>
      py \<ge> item_y it \<and> py \<le> item_y it + item_h it)"

text \<open>\<open>onPointerDown\<close>. \<open>rect\<close> is \<open>stageRef.current?.getBoundingClientRect()\<close>, and
  \<open>cx\<close>, \<open>cy\<close> are \<open>e.clientX\<close>, \<open>e.clientY\<close>.\<close>

definition onPointerDown :: "plano \<Rightarrow> domRect option \<Rightarrow> real \<Rightarrow> real \<Rightarrow> plano" where
  "onPointerDown s rect cx cy =
     (case rect of
        None \<Rightarrow> s
      | Some r \<Rightarrow>
          let px = cx - rect_left r;
              py = cy - rect_top r
          in if measureMode s
             then s\<lparr>measure := \<lparr>active = True, measure_x = px, measure_y = py,
                                 measure_w = 0, measure_h = 0\<rparr>\<rparr>
             else
               (case find (hits px py) (rev (items s)) of
                  Some topItem \<Rightarrow>
                    s\<lparr>selectedId := Some (item_id topItem),
                      drag := Some \<lparr>drag_id = item_id topItem,
                                    offsetX = px - item_x topItem,
                                    offsetY = py - item_y topItem,
                                    resizing = withinHandle px py topItem\<rparr>\<rparr>
                | None \<Rightarrow> s\<lparr>selectedId := None\<rparr>))"

text \<open>\<open>onPointerMove\<close>.\<close>

definition onPointerMove :: "plano \<Rightarrow> domRect option \<Rightarrow> real \<Rightarrow> real \<Rightarrow> plano" where
  "onPointerMove s rect cx cy =
     (case rect of
        None \<Rightarrow> s
      | Some r \<Rightarrow>
          let px = cx - rect_left r;
              py = cy - rect_top r
          in if measureMode s \<and> active (measure s)
             then s\<lparr>measure := (measure s)\<lparr>measure_w := px - measure_x (measure s),
                                            measure_h := py - measure_y (measure s)\<rparr>\<rparr>
             else
               (case drag s of
                  None \<Rightarrow> s
                | Some d \<Rightarrow>
                    s\<lparr>items := map (\<lambda>it.
                        if item_id it \<noteq> drag_id d then it
                        else if resizing d then
                          let newW = max 20 (px - item_x it);
                              newH = max 20 (py - item_y it)
                          in it\<lparr>item_w := snap newW (gridSize s),
                                item_h := snap newH (gridSize s)\<rparr>
                        else
                          let newX = px - offsetX d;
                              newY = py - offsetY d
                          in it\<lparr>item_x := snap newX (gridSize s),
                                item_y := snap newY (gridSize s)\<rparr>) (items s)\<rparr>))"

text \<open>\<open>onPointerUp\<close>. \<open>drag && stageSize.height\<close> holds for a drag and a stage height
  other than 0.\<close>

definition onPointerUp :: "plano \<Rightarrow> plano" where
  "onPointerUp s =
     (if measureMode s \<and> active (measure s)
      then s\<lparr>measure := (measure s)\<lparr>measure_w := snap (measure_w (measure s)) (gridSize s),
                                     measure_h := snap (measure_h (measure s)) (gridSize s),
                                     active := False\<rparr>\<rparr>
      else
        (case drag s of
           None \<Rightarrow> s\<lparr>drag := None\<rparr>
         | Some d \<Rightarrow>
             if stage_height (stageSz s) \<noteq> 0
             then s\<lparr>items := map (\<lambda>it.
                        if item_id it = drag_id d
                        then alignItemToRows (rowCount s) it (Num (stage_height (stageSz s)))
                        else it) (items s),
                    drag := None\<rparr>
             else s\<lparr>drag := None\<rparr>))"

text \<open>The effect that re-aligns every item when the stage height or the row count
  changes: \<open>if (!stageSize.height) return; setItems((prev) => prev.map(...))\<close>. It gives
  back \<open>prev\<close> itself when no item moved, which is the same list of values.\<close>

definition realignItems :: "plano \<Rightarrow> plano" where
  "realignItems s =
     (if stage_height (stageSz s) = 0 then s
      else s\<lparr>items := map (\<lambda>it.
                 alignItemToRows (rowCount s) it (Num (stage_height (stageSz s)))) (items s)\<rparr>)"

text \<open>\<open>removeSelected\<close>.\<close>

definition removeSelected :: "plano \<Rightarrow> plano" where
  "removeSelected s =
     (case selected s of
        None \<Rightarrow> s
      | Some sel \<Rightarrow>
          s\<lparr>items := filter (\<lambda>it. item_id it \<noteq> item_id sel) (items s),
            selectedId := None\<rparr>)"

subsection \<open>The initial state\<close>

text \<open>The two boxes and the hook defaults that \<open>PlanoMVP\<close> starts from; the examples
  below run on them. \<open>stageOrigin\<close> is a stage whose top-left corner is the origin of
  the client coordinates.\<close>

definition boxA :: planoItem where
  "boxA = \<lparr>item_id = ''A'', item_name = ''Box A'', item_x = 60, item_y = 60,
            item_w = 160, item_h = 120, item_depth = Num 30, item_qty = Num 1,
            item_color = ''#22d3ee''\<rparr>"

definition boxB :: planoItem where
  "boxB = \<lparr>item_id = ''B'', item_name = ''Box B'', item_x = 280, item_y = 60,
            item_w = 120, item_h = 160, item_depth = Num 20, item_qty = Num 1,
            item_color = ''#ef4444''\<rparr>"

definition initialState :: plano where
  "initialState =
     \<lparr>gridSize = 20, pxPerCm = 10, containerDepth = 40, measureMode = False,
      rowCount = 3, stageSz = \<lparr>stage_width = 0, stage_height = 0\<rparr>,
      items = [boxA, boxB], selectedId = Some ''A'', drag = None,
      measure = \<lparr>active = False, measure_x = 0, measure_y = 0,
                  measure_w = 0, measure_h = 0\<rparr>\<rparr>"

definition stageOrigin :: domRect where
  "stageOrigin = \<lparr>rect_left = 0, rect_top = 0\<rparr>"

text \<open>A measured stage, 700 high, that holds one box 260 high at \<open>y = 200\<close>.\<close>

definition tallBoxState :: plano where
  "tallBoxState =
     initialState\<lparr>stageSz := \<lparr>stage_width = 1000, stage_height = 700\<rparr>,
                  items := [boxA\<lparr>item_y := 200, item_h := 260\<rparr>]\<rparr>"

subsection \<open>Adding an item\<close>

text \<open>The decimal digits of a number, as the template literals \<open>`N${num}`\<close> and
  \<open>`Box ${num}`\<close> print it.\<close>

fun decimal :: "nat \<Rightarrow> string" where
  "decimal n =
     (if n < 10 then [''0123456789'' ! n]
      else decimal (n div 10) @ [''0123456789'' ! (n mod 10)])"

declare decimal.simps [simp del]

definition colorPool :: "string list" where
  "colorPool = [''#22d3ee'', ''#8b5cf6'', ''#f59e0b'', ''#10b981'', ''#ef4444'', ''#3b82f6'']"

text \<open>\<open>addItem\<close>. \<open>measuredHeight\<close> is \<open>stageRef.current?.getBoundingClientRect().height\<close>,
  \<open>None\<close> where the stage is not mounted; \<open>??\<close> then falls back to \<open>stageSize.height\<close>.
  The new id is numbered by the length of the list.\<close>

definition addItem :: "plano \<Rightarrow> real option \<Rightarrow> plano" where
  "addItem s measuredHeight =
     (let num = length (items s) + 1;
          stageHeight = (case measuredHeight of
                           Some hgt \<Rightarrow> hgt
                         | None \<Rightarrow> stage_height (stageSz s));
          baseItem = \<lparr>item_id = ''N'' @ decimal num,
                      item_name = ''Box '' @ decimal num,
                      item_x = snap (40 + real num * 24) (gridSize s),
                      item_y = snap (200 + real (num mod 3) * 24) (gridSize s),
                      item_w = snap 120 (gridSize s),
                      item_h = snap 80 (gridSize s),
                      item_depth = Num 25,
                      item_qty = Num 1,
                      item_color = colorPool ! (num mod length colorPool)\<rparr>;
          alignedItem = alignItemToRows (rowCount s) baseItem (Num stageHeight)
      in s\<lparr>items := items s @ [alignedItem],
           selectedId := Some (''N'' @ decimal num)\<rparr>)"

text \<open>The state after mounting on a stage 900 wide and 600 high: the stage size is
  measured and the effect has aligned the two boxes to the rows, 200 high each.\<close>

definition mountedState :: plano where
  "mountedState =
     realignItems (initialState\<lparr>stageSz := \<lparr>stage_width = 900, stage_height = 600\<rparr>\<rparr>)"

text \<open>The box that \<open>addItem\<close> builds as the third of a list at grid size 20, before it
  is aligned, and a state on the mounted stage that holds it twice: box B, an \<open>N3\<close> that
  was dragged to (400, 120), and a second \<open>N3\<close> where \<open>addItem\<close> put it.\<close>

definition boxN3 :: planoItem where
  "boxN3 = \<lparr>item_id = ''N3'', item_name = ''Box 3'', item_x = 120, item_y = 200,
             item_w = 120, item_h = 80, item_depth = Num 25, item_qty = Num 1,
             item_color = ''#10b981''\<rparr>"

definition twinState :: plano where
  "twinState =
     initialState\<lparr>stageSz := \<lparr>stage_width = 900, stage_height = 600\<rparr>,
                  items := [boxB\<lparr>item_y := 240\<rparr>,
                            boxN3\<lparr>item_x := 400, item_y := 120\<rparr>,
                            boxN3\<lparr>item_y := 320\<rparr>],
                  selectedId := Some ''N3''\<rparr>"

section \<open>Snapping\<close>

lemma Math_round_of_int: "Math_round (of_int n) = of_int n"
  unfolding Math_round_def by simp

text \<open>
  Claim C5. \<open>snap\<close> is idempotent: for every value \<open>v\<close> and every grid size \<open>g\<close> of the
  configurable range 10 to 40, snapping a snapped value changes nothing.
\<close>

theorem snap_idempotent:
  assumes "10 \<le> g" and "g \<le> 40"
  shows "snap (snap v g) g = snap v g"
proof -
  from assms have g: "g \<noteq> 0" by simp
  obtain n :: int where n: "Math_round (v / g) = of_int n"
    unfolding Math_round_def by blast
  have "snap (snap v g) g = Math_round (of_int n * g / g) * g"
    by (simp add: snap_def n)
  also have "\<dots> = Math_round (of_int n) * g"
    using g by simp
  also have "\<dots> = snap v g"
    by (simp add: Math_round_of_int snap_def n)
  finally show ?thesis .
qed

theorem snap_idempotent_witness:
  "(10::real) \<le> 20 \<and> (20::real) \<le> 40 \<and> snap (snap 77 20) 20 = snap 77 20"
  using snap_idempotent [of 20 77] by simp

section \<open>Validation\<close>

text \<open>
  Claim C1. For every item with a numeric quantity \<open>q\<close> and depth \<open>d\<close> and every
  container depth, \<open>depthExceeded\<close> is true exactly when \<open>q * d\<close> is strictly greater
  than the container depth. The witness is the scenario of the specification: at
  container depth 40, quantity 2 of depth 20 (total 40) is not flagged and quantity 2 of
  depth 21 (total 42) is.
\<close>

theorem depthExceeded_iff:
  assumes "item_qty it = Num q" and "item_depth it = Num d"
  shows "depthExceeded cDepth it \<longleftrightarrow> q * d > cDepth"
  using assms by (simp add: depthExceeded_def)

theorem depthExceeded_iff_witness:
  "\<not> depthExceeded 40 (boxA\<lparr>item_qty := Num 2, item_depth := Num 20\<rparr>)
   \<and> depthExceeded 40 (boxA\<lparr>item_qty := Num 2, item_depth := Num 21\<rparr>)"
  using depthExceeded_iff [of "boxA\<lparr>item_qty := Num 2, item_depth := Num 20\<rparr>" 2 20 40]
    depthExceeded_iff [of "boxA\<lparr>item_qty := Num 2, item_depth := Num 21\<rparr>" 2 21 40]
  by simp

text \<open>
  Claim C10. \<open>depthExceeded\<close> coerces a missing or \<open>NaN\<close> quantity or depth to 0
  before multiplying: an item whose quantity or depth is absent or \<open>NaN\<close> is not
  flagged at any container depth of at least 0.
\<close>

theorem depthExceeded_missing:
  assumes "item_qty it \<in> {Undefined, NaN} \<or> item_depth it \<in> {Undefined, NaN}"
    and "0 \<le> cDepth"
  shows "or_zero (item_qty it) * or_zero (item_depth it) = 0 \<and> \<not> depthExceeded cDepth it"
  using assms by (auto simp add: depthExceeded_def)

theorem depthExceeded_missing_witness:
  "\<not> depthExceeded 0 (boxA\<lparr>item_qty := NaN\<rparr>)
   \<and> \<not> depthExceeded 40 (boxB\<lparr>item_depth := Undefined, item_qty := Num 5\<rparr>)"
  using depthExceeded_missing [of "boxA\<lparr>item_qty := NaN\<rparr>" 0]
    depthExceeded_missing [of "boxB\<lparr>item_depth := Undefined, item_qty := Num 5\<rparr>" 40]
  by simp

text \<open>
  Claim C4. When the row height can be computed (stage height other than 0 and a
  positive row count), an item is height-exceeded exactly when its height is greater
  than \<open>stageHeight / rowCount + 0.01\<close>; when it cannot (stage height 0, or a row count
  of 0 or less), no item is. The witness is the scenario of the specification: on a
  stage 700 high with 3 rows, height 260 is flagged and height 200 is not.
\<close>

theorem isHeightExceeded_iff:
  "(rowCnt > 0 \<and> stageH \<noteq> 0 \<longrightarrow>
      (isHeightExceeded (rowHeightPx rowCnt stageH) it
         \<longleftrightarrow> item_h it > stageH / rowCnt + 1 / 100))
   \<and> (stageH = 0 \<or> rowCnt \<le> 0 \<longrightarrow>
      \<not> isHeightExceeded (rowHeightPx rowCnt stageH) it)"
  by (auto simp add: isHeightExceeded_def rowHeightPx_def)

theorem isHeightExceeded_iff_witness:
  "isHeightExceeded (rowHeightPx 3 700) (boxA\<lparr>item_h := 260\<rparr>)
   \<and> \<not> isHeightExceeded (rowHeightPx 3 700) (boxA\<lparr>item_h := 200\<rparr>)
   \<and> \<not> isHeightExceeded (rowHeightPx 3 0) (boxA\<lparr>item_h := 260\<rparr>)"
  using isHeightExceeded_iff [of 3 700 "boxA\<lparr>item_h := 260\<rparr>"]
    isHeightExceeded_iff [of 3 700 "boxA\<lparr>item_h := 200\<rparr>"]
    isHeightExceeded_iff [of 3 0 "boxA\<lparr>item_h := 260\<rparr>"]
  by simp

section \<open>Row alignment\<close>

lemma alignItemToRows_cases:
  "alignItemToRows rowCnt item stageHeight = item \<or>
   (\<exists>sh. stageHeight = Num sh \<and> sh \<noteq> 0 \<and> 0 < rowCnt \<and>
      alignItemToRows rowCnt item stageHeight = item\<lparr>item_y := alignedY rowCnt sh item\<rparr>)"
  by (cases stageHeight) (auto simp add: alignItemToRows_def Let_def)

text \<open>
  Claim C9. \<open>alignItemToRows\<close> changes at most the \<open>y\<close> of an item: the result has the
  id, name, x, w, h, depth, qty and color of the input. The item comes back unchanged
  when the stage height is \<open>undefined\<close>, \<open>NaN\<close> or 0, when the row count is 0 or less,
  and when the recomputed y is less than 0.01 away from the current y.
\<close>

theorem alignItemToRows_frame:
  "(\<exists>ny. alignItemToRows rowCnt item stageHeight = item\<lparr>item_y := ny\<rparr>)
   \<and> item_id (alignItemToRows rowCnt item stageHeight) = item_id item
   \<and> item_name (alignItemToRows rowCnt item stageHeight) = item_name item
   \<and> item_x (alignItemToRows rowCnt item stageHeight) = item_x item
   \<and> item_w (alignItemToRows rowCnt item stageHeight) = item_w item
   \<and> item_h (alignItemToRows rowCnt item stageHeight) = item_h item
   \<and> item_depth (alignItemToRows rowCnt item stageHeight) = item_depth item
   \<and> item_qty (alignItemToRows rowCnt item stageHeight) = item_qty item
   \<and> item_color (alignItemToRows rowCnt item stageHeight) = item_color item
   \<and> (stageHeight \<in> {Undefined, NaN, Num 0} \<or> rowCnt \<le> 0
        \<longrightarrow> alignItemToRows rowCnt item stageHeight = item)
   \<and> (\<forall>sh. stageHeight = Num sh \<and> \<bar>alignedY rowCnt sh item - item_y item\<bar> < 1 / 100
        \<longrightarrow> alignItemToRows rowCnt item stageHeight = item)"
proof -
  have unchanged: "\<exists>ny. item = item\<lparr>item_y := ny\<rparr>"
    by (rule exI [of _ "item_y item"]) simp
  have guard: "stageHeight \<in> {Undefined, NaN, Num 0} \<or> rowCnt \<le> 0
      \<Longrightarrow> alignItemToRows rowCnt item stageHeight = item"
    by (cases stageHeight) (auto simp add: alignItemToRows_def)
  have near: "\<And>sh. stageHeight = Num sh \<Longrightarrow> \<bar>alignedY rowCnt sh item - item_y item\<bar> < 1 / 100
      \<Longrightarrow> alignItemToRows rowCnt item stageHeight = item"
    by (simp add: alignItemToRows_def Let_def)
  from alignItemToRows_cases [of rowCnt item stageHeight] unchanged
  have "\<exists>ny. alignItemToRows rowCnt item stageHeight = item\<lparr>item_y := ny\<rparr>"
    by metis
  then obtain ny where ny: "alignItemToRows rowCnt item stageHeight = item\<lparr>item_y := ny\<rparr>" ..
  show ?thesis
    using guard near by (simp add: ny) blast
qed

text \<open>The witness: with 3 rows on a stage 700 high, box A (bottom edge at 180) moves
  to the bottom of the first row and keeps its other fields; with no stage height, with
  a row count of 0, and once it sits on the baseline, it comes back as it is.\<close>

theorem alignItemToRows_frame_witness:
  "alignItemToRows 3 boxA (Num 700) = boxA\<lparr>item_y := 340 / 3\<rparr>
   \<and> item_x (alignItemToRows 3 boxA (Num 700)) = 60
   \<and> item_h (alignItemToRows 3 boxA (Num 700)) = 120
   \<and> alignItemToRows 3 boxA Undefined = boxA
   \<and> alignItemToRows 3 boxA (Num 0) = boxA
   \<and> alignItemToRows 0 boxA (Num 700) = boxA
   \<and> alignItemToRows 3 (boxA\<lparr>item_y := 340 / 3\<rparr>) (Num 700) = boxA\<lparr>item_y := 340 / 3\<rparr>"
proof -
  have moved: "alignItemToRows 3 boxA (Num 700) = boxA\<lparr>item_y := 340 / 3\<rparr>"
    by (simp add: alignItemToRows_def alignedY_def Let_def boxA_def)
  have near: "\<bar>alignedY 3 700 (boxA\<lparr>item_y := 340 / 3\<rparr>) - item_y (boxA\<lparr>item_y := 340 / 3\<rparr>)\<bar> < 1 / 100"
    by (simp add: alignedY_def Let_def boxA_def)
  show ?thesis
    using alignItemToRows_frame [of 3 boxA "Num 700"]
      alignItemToRows_frame [of 3 boxA Undefined]
      alignItemToRows_frame [of 3 boxA "Num 0"]
      alignItemToRows_frame [of 0 boxA "Num 700"]
      alignItemToRows_frame [of 3 "boxA\<lparr>item_y := 340 / 3\<rparr>" "Num 700"]
      moved near
    by (simp add: boxA_def)
qed

text \<open>
  Claim C2 says that aligning twice at the same stage height gives the \<open>y\<close> that
  aligning once gives, for every item. The function returns the item itself when the
  recomputed \<open>y\<close> is within 0.01 of the current one, which is the test of a fixed point,
  but the row is taken from the bottom edge before the move and the result is not
  always a fixed point. A box 260 high at \<open>y = -100\<close>, on a stage 700 high with 3 rows,
  has its bottom edge in the first row, whose baseline is at 233.33: the first
  alignment puts it at \<open>max(0, 233.33 - 260) = 0\<close>. Its bottom edge is then at 260, in
  the second row, and the second alignment moves it to \<open>466.67 - 260 = 206.67\<close>.
\<close>

theorem alignItemToRows_twice_moves_again:
  "item_y (alignItemToRows 3 (boxA\<lparr>item_y := - 100, item_h := 260\<rparr>) (Num 700)) = 0
   \<and> item_y (alignItemToRows 3
        (alignItemToRows 3 (boxA\<lparr>item_y := - 100, item_h := 260\<rparr>) (Num 700)) (Num 700))
      = 620 / 3
   \<and> item_y (alignItemToRows 3
        (alignItemToRows 3 (boxA\<lparr>item_y := - 100, item_h := 260\<rparr>) (Num 700)) (Num 700))
      \<noteq> item_y (alignItemToRows 3 (boxA\<lparr>item_y := - 100, item_h := 260\<rparr>) (Num 700))"
  by (simp add: alignItemToRows_def alignedY_def Let_def boxA_def)

text \<open>
  The handlers reach such an item. On a stage 700 high with 3 rows, a box 260 high at
  \<open>y = 200\<close> is grabbed near its bottom edge, at (100, 440), and dragged up to
  (100, 140): the move commits \<open>y = -100\<close>, and the release aligns the box to \<open>y = 0\<close>.
  A click on the box, pointer down and up at (100, 100) with no move in between, aligns
  it again, and it jumps to \<open>y = 206.67\<close>.
\<close>

lemma release_then_click_moves_again:
  "items (onPointerMove (onPointerDown tallBoxState (Some stageOrigin) 100 440)
        (Some stageOrigin) 100 140)
     = [boxA\<lparr>item_y := - 100, item_h := 260\<rparr>]"
  "items (onPointerUp (onPointerMove (onPointerDown tallBoxState (Some stageOrigin) 100 440)
        (Some stageOrigin) 100 140))
     = [boxA\<lparr>item_y := 0, item_h := 260\<rparr>]"
  "items (onPointerUp (onPointerDown
        (onPointerUp (onPointerMove (onPointerDown tallBoxState (Some stageOrigin) 100 440)
           (Some stageOrigin) 100 140))
        (Some stageOrigin) 100 100))
     = [boxA\<lparr>item_y := 620 / 3, item_h := 260\<rparr>]"
  by (simp_all add: tallBoxState_def onPointerUp_def onPointerMove_def onPointerDown_def
      alignItemToRows_def alignedY_def initialState_def stageOrigin_def boxA_def
      hits_def withinHandle_def snap_def Math_round_def Let_def)

section \<open>Item ids\<close>

text \<open>
  The handlers and the deletion find an item by its id. \<open>addItem\<close> numbers a new item
  by the length of the list, so an id comes back once an older item has been deleted:
  on the mounted stage, add a box (\<open>N3\<close>), drag it to (400, 120), click box A, delete
  it, and add a box again. The list then holds two items with the id \<open>N3\<close>. Every
  number on the way is an integer.
\<close>

lemma decimal_3: "decimal 3 = ''3''" "decimal (Suc (Suc (Suc 0))) = ''3''"
  by (subst decimal.simps, simp add: eval_nat_numeral)+

lemma mountedState_items:
  "mountedState = initialState\<lparr>stageSz := \<lparr>stage_width = 900, stage_height = 600\<rparr>,
                               items := [boxA\<lparr>item_y := 80\<rparr>, boxB\<lparr>item_y := 240\<rparr>]\<rparr>"
  by (simp add: mountedState_def realignItems_def initialState_def alignItemToRows_def
      alignedY_def Let_def boxA_def boxB_def)

lemma twinState_reached:
  "addItem (removeSelected (onPointerUp (onPointerDown
     (onPointerUp (onPointerMove (onPointerDown (addItem mountedState (Some 600))
        (Some stageOrigin) 130 330) (Some stageOrigin) 410 130))
     (Some stageOrigin) 100 100))) (Some 600) = twinState"
proof -
  let ?m = "initialState\<lparr>stageSz := \<lparr>stage_width = 900, stage_height = 600\<rparr>\<rparr>"
  let ?a = "boxA\<lparr>item_y := 80\<rparr>"
  let ?b = "boxB\<lparr>item_y := 240\<rparr>"
  let ?near = "boxN3\<lparr>item_y := 320\<rparr>"
  let ?far = "boxN3\<lparr>item_x := 400, item_y := 120\<rparr>"
  let ?d = "\<lparr>drag_id = ''N3'', offsetX = 10, offsetY = 10, resizing = False\<rparr>"
  let ?s1 = "?m\<lparr>items := [?a, ?b, ?near], selectedId := Some ''N3''\<rparr>"
  have s1: "addItem mountedState (Some 600) = ?s1"
    by (simp add: mountedState_items addItem_def Let_def initialState_def decimal_3 snap_def
        Math_round_def colorPool_def alignItemToRows_def alignedY_def boxN3_def)
  have s2: "onPointerDown ?s1 (Some stageOrigin) 130 330 = ?s1\<lparr>drag := Some ?d\<rparr>"
    by (simp add: onPointerDown_def Let_def initialState_def stageOrigin_def hits_def
        withinHandle_def boxA_def boxB_def boxN3_def)
  have s3: "onPointerMove (?s1\<lparr>drag := Some ?d\<rparr>) (Some stageOrigin) 410 130
      = ?s1\<lparr>drag := Some ?d, items := [?a, ?b, ?far]\<rparr>"
    by (simp add: onPointerMove_def Let_def initialState_def stageOrigin_def
        boxA_def boxB_def boxN3_def snap_def Math_round_def)
  have s4: "onPointerUp (?s1\<lparr>drag := Some ?d, items := [?a, ?b, ?far]\<rparr>)
      = ?s1\<lparr>items := [?a, ?b, ?far]\<rparr>"
    by (simp add: onPointerUp_def initialState_def alignItemToRows_def alignedY_def Let_def
        boxA_def boxB_def boxN3_def)
  have s5: "onPointerUp (onPointerDown (?s1\<lparr>items := [?a, ?b, ?far]\<rparr>) (Some stageOrigin) 100 100)
      = ?s1\<lparr>items := [?a, ?b, ?far], selectedId := Some ''A''\<rparr>"
    by (simp add: onPointerUp_def onPointerDown_def Let_def initialState_def stageOrigin_def
        hits_def withinHandle_def alignItemToRows_def alignedY_def boxA_def boxB_def boxN3_def)
  have s6: "removeSelected (?s1\<lparr>items := [?a, ?b, ?far], selectedId := Some ''A''\<rparr>)
      = ?s1\<lparr>items := [?b, ?far], selectedId := None\<rparr>"
    by (simp add: removeSelected_def selected_def boxA_def boxB_def boxN3_def)
  have s7: "addItem (?s1\<lparr>items := [?b, ?far], selectedId := None\<rparr>) (Some 600) = twinState"
    by (simp add: addItem_def Let_def initialState_def decimal_3 snap_def Math_round_def
        colorPool_def alignItemToRows_def alignedY_def boxN3_def twinState_def)
  show ?thesis
    by (simp only: s1 s2 s3 s4 s5 s6 s7)
qed




section \<open>Pointer handlers\<close>








text \<open>
  Claim C3 says that a resize never commits a width or height below 20, and the
  comment in the handler says the same (keep min size 20 by 20). The handler clamps to
  20 first and snaps afterwards, and at the grid sizes 14, 16 and 18 of the slider
  \<open>snap\<close> takes 20 down to the grid size. Here the grid is 14: box A is grabbed by its
  resize handle at (215, 175) and the pointer moves to the stage origin.
\<close>

theorem resize_below_minimum:
  "drag (onPointerDown (initialState\<lparr>gridSize := 14\<rparr>) (Some stageOrigin) 215 175)
     = Some \<lparr>drag_id = ''A'', offsetX = 155, offsetY = 115, resizing = True\<rparr>
   \<and> items (onPointerMove
        (onPointerDown (initialState\<lparr>gridSize := 14\<rparr>) (Some stageOrigin) 215 175)
        (Some stageOrigin) 0 0)
      = [boxA\<lparr>item_w := 14, item_h := 14\<rparr>, boxB]
   \<and> snap (max 20 (0 - item_x boxA)) 14 = 14
   \<and> snap 20 16 = 16 \<and> snap 20 18 = 18"
  by (simp add: onPointerMove_def onPointerDown_def initialState_def stageOrigin_def boxA_def
      boxB_def hits_def withinHandle_def snap_def Math_round_def Let_def)

section \<open>Deleting the selected item\<close>






end
